theory Spec2Isabelle
  imports Complex_Main "HOL-Library.Sublist"
begin

section \<open>Text, character classes and Python string helpers\<close>

text \<open>
  The response text is a Python \<open>str\<close>. It is modelled as a \<open>string\<close> whose characters
  are the code points 0 to 255, one \<open>char\<close> per code point. On that range the regex
  classes \<open>\s\<close> and \<open>\d\<close> of a \<open>str\<close> pattern are the sets below: \<open>\s\<close> is what
  \<open>str.isspace\<close> accepts (tab, line feed, vertical tab, form feed, carriage return, the
  four separators 0x1C to 0x1F, space, NEL 0x85 and the no-break space 0xA0), and \<open>\d\<close>
  is the ten ASCII digits.
\<close>

definition is_space :: "char \<Rightarrow> bool" where
  "is_space c = (c \<in> set [CHR 0x09, CHR 0x0A, CHR 0x0B, CHR 0x0C, CHR 0x0D,
                           CHR 0x1C, CHR 0x1D, CHR 0x1E, CHR 0x1F, CHR 0x20,
                           CHR 0x85, CHR 0xA0])"

definition is_digit :: "char \<Rightarrow> bool" where
  "is_digit c = (c \<in> set ''0123456789'')"

definition any_char :: "char \<Rightarrow> bool" where
  \<comment> \<open>\<open>.\<close> under \<open>re.DOTALL\<close>\<close>
  "any_char c = True"

definition not_newline :: "char \<Rightarrow> bool" where
  \<comment> \<open>\<open>[^\n]\<close>\<close>
  "not_newline c = (c \<noteq> CHR 0x0A)"

definition not_space :: "char \<Rightarrow> bool" where
  \<comment> \<open>\<open>[^\s]\<close>\<close>
  "not_space c = (\<not> is_space c)"

definition score_char :: "char \<Rightarrow> bool" where
  \<comment> \<open>\<open>[-\d.]\<close>\<close>
  "score_char c = (c = CHR ''-'' \<or> is_digit c \<or> c = CHR ''.'')"

definition strip :: "string \<Rightarrow> string" where
  \<comment> \<open>\<open>str.strip()\<close> without argument\<close>
  "strip s = rev (dropWhile is_space (rev (dropWhile is_space s)))"

section \<open>Python values, exceptions and \<open>float()\<close>\<close>

text \<open>
  A sentiment is the integer \<open>0\<close> of the initial record or the result of \<open>float()\<close>.
  \<open>PyFloat q\<close> stands for the binary64 number that \<open>float()\<close> returns for a decimal
  literal of exact value \<open>q\<close>; the rounding to binary64 is not computed. Since
  \<open>float()\<close> rounds correctly, its result is zero exactly when the magnitude of \<open>q\<close> is at
  most half of the least subnormal, which \<open>num_is_zero\<close> records.
\<close>

datatype pynum = PyInt int | PyFloat rat

fun num_is_zero :: "pynum \<Rightarrow> bool" where
  "num_is_zero (PyInt i) = (i = 0)"
| "num_is_zero (PyFloat q) = (\<bar>q\<bar> \<le> 1 / 2 ^ 1075)"

datatype exn =
    ValueError string      \<comment> \<open>raised by \<open>float()\<close>; carries \<open>str(e)\<close>\<close>
  | UpstreamError string   \<comment> \<open>any \<open>Exception\<close> raised by the SDK call; carries \<open>str(e)\<close>\<close>

fun str_of_exn :: "exn \<Rightarrow> string" where
  "str_of_exn (ValueError m) = m"
| "str_of_exn (UpstreamError m) = m"

definition digit_val :: "char \<Rightarrow> int" where
  "digit_val c = int (of_char c) - 48"

definition digits_val :: "string \<Rightarrow> int" where
  "digits_val ds = foldl (\<lambda>a c. 10 * a + digit_val c) 0 ds"

text \<open>
  \<open>float(s)\<close> on the strings the score pattern can capture, that is strings over
  \<open>-\<close>, the digits and \<open>.\<close>: an optional leading minus sign, then digits with an optional
  point and optional digits, or a point followed by digits. Anything else raises
  \<open>ValueError\<close> with the message CPython builds.
\<close>

definition py_float :: "string \<Rightarrow> exn + pynum" where
  "py_float s =
     (let (neg, body) = (case s of c # r \<Rightarrow> if c = CHR ''-'' then (True, r) else (False, s)
                                  | [] \<Rightarrow> (False, s));
          ip = takeWhile is_digit body;
          r1 = dropWhile is_digit body;
          (fp, r2) = (case r1 of c # r \<Rightarrow> if c = CHR ''.''
                                            then (takeWhile is_digit r, dropWhile is_digit r)
                                            else ([], r1)
                                 | [] \<Rightarrow> ([], r1));
          q = of_int (digits_val (ip @ fp)) / 10 ^ length fp
      in if r2 \<noteq> [] \<or> (ip = [] \<and> fp = [])
         then Inl (ValueError (''could not convert string to float: '' @ [CHR 0x27] @ s @ [CHR 0x27]))
         else Inr (PyFloat (if neg then - q else q)))"

section \<open>The regular expressions of the \<open>re\<close> module\<close>

text \<open>
  The fragment of Python's regular expressions that the script uses. Every quantifier
  of the source patterns stands on a single-character class, except \<open>s?\<close>. The matcher is
  the backtracking search of \<open>re\<close>: alternatives are tried in priority order (greedy
  quantifiers longest first, lazy ones shortest first, \<open>|\<close> left to right) and the first
  complete match wins. The continuation \<open>k\<close> is the rest of the pattern.
\<close>

datatype regex =
    Lit string                    \<comment> \<open>a literal character sequence\<close>
  | Star "char \<Rightarrow> bool"           \<comment> \<open>\<open>[c]*\<close>, greedy\<close>
  | Plus "char \<Rightarrow> bool"           \<comment> \<open>\<open>[c]+\<close>, greedy\<close>
  | LazyStar "char \<Rightarrow> bool"       \<comment> \<open>\<open>[c]*?\<close>\<close>
  | Opt regex                     \<comment> \<open>\<open>r?\<close>, greedy\<close>
  | Seq regex regex
  | Alt regex regex               \<comment> \<open>\<open>r|r\<close>\<close>
  | Group nat regex               \<comment> \<open>a capturing group with its number\<close>
  | Look regex                    \<comment> \<open>\<open>(?=r)\<close>\<close>
  | Eos                           \<comment> \<open>\<open>$\<close> without \<open>re.MULTILINE\<close>\<close>

type_synonym caps = "nat \<Rightarrow> string option"

type_synonym result = "(string \<times> caps) option"

fun lit :: "string \<Rightarrow> string \<Rightarrow> string option" where
  "lit [] s = Some s"
| "lit (c # w) [] = None"
| "lit (c # w) (x # s) = (if c = x then lit w s else None)"

fun greedy :: "(char \<Rightarrow> bool) \<Rightarrow> string \<Rightarrow> (string \<Rightarrow> result) \<Rightarrow> result" where
  "greedy p [] k = k []"
| "greedy p (x # s) k =
     (if p x then (case greedy p s k of Some r \<Rightarrow> Some r | None \<Rightarrow> k (x # s))
      else k (x # s))"

fun lazy :: "(char \<Rightarrow> bool) \<Rightarrow> string \<Rightarrow> (string \<Rightarrow> result) \<Rightarrow> result" where
  "lazy p [] k = k []"
| "lazy p (x # s) k =
     (case k (x # s) of Some r \<Rightarrow> Some r
      | None \<Rightarrow> if p x then lazy p s k else None)"

fun rmatch :: "regex \<Rightarrow> string \<Rightarrow> caps \<Rightarrow> (string \<Rightarrow> caps \<Rightarrow> result) \<Rightarrow> result" where
  "rmatch (Lit w) s c k = (case lit w s of None \<Rightarrow> None | Some s' \<Rightarrow> k s' c)"
| "rmatch (Star p) s c k = greedy p s (\<lambda>s'. k s' c)"
| "rmatch (Plus p) s c k =
     (case s of [] \<Rightarrow> None
      | x # s' \<Rightarrow> if p x then greedy p s' (\<lambda>s''. k s'' c) else None)"
| "rmatch (LazyStar p) s c k = lazy p s (\<lambda>s'. k s' c)"
| "rmatch (Opt r) s c k =
     (case rmatch r s c k of Some x \<Rightarrow> Some x | None \<Rightarrow> k s c)"
| "rmatch (Seq a b) s c k = rmatch a s c (\<lambda>s' c'. rmatch b s' c' k)"
| "rmatch (Alt a b) s c k =
     (case rmatch a s c k of Some x \<Rightarrow> Some x | None \<Rightarrow> rmatch b s c k)"
| "rmatch (Group i r) s c k =
     rmatch r s c (\<lambda>s' c'. k s' (c'(i \<mapsto> take (length s - length s') s)))"
| "rmatch (Look r) s c k =
     (case rmatch r s c (\<lambda>s' c'. Some (s', c')) of None \<Rightarrow> None
      | Some (s', c') \<Rightarrow> k s c')"
| "rmatch Eos s c k = (if s = [] \<or> s = [CHR 0x0A] then k s c else None)"

definition match_at :: "regex \<Rightarrow> string \<Rightarrow> result" where
  \<comment> \<open>a match starting at the head of the text: the text left after it and the groups\<close>
  "match_at r s = rmatch r s Map.empty (\<lambda>s' c'. Some (s', c'))"

fun search :: "regex \<Rightarrow> string \<Rightarrow> result" where
  \<comment> \<open>\<open>re.search\<close>: the leftmost start position at which the pattern matches\<close>
  "search r [] = match_at r []"
| "search r (x # s) =
     (case match_at r (x # s) of Some m \<Rightarrow> Some m | None \<Rightarrow> search r s)"

fun finditer :: "regex \<Rightarrow> string \<Rightarrow> caps list" where
  \<comment> \<open>\<open>re.finditer\<close>: successive non-overlapping matches, left to right. The scan goes
      on behind a match that consumed text; the only pattern it is used with cannot
      match the empty string.\<close>
  "finditer r s =
     (case search r s of None \<Rightarrow> []
      | Some (s', c) \<Rightarrow> if length s' < length s then c # finditer r s' else [c])"

definition group :: "caps \<Rightarrow> nat \<Rightarrow> string" where
  \<comment> \<open>\<open>match.group(i)\<close> for a group that took part in the match\<close>
  "group c i = (case c i of Some g \<Rightarrow> g | None \<Rightarrow> [])"

fun cat :: "regex list \<Rightarrow> regex" where
  "cat [] = Lit []"
| "cat [r] = r"
| "cat (r # rs) = Seq r (cat rs)"

section \<open>The script\<close>

subsection \<open>The result record\<close>

record Citation =
  account :: string
  tweet_text :: string   \<comment> \<open>the key \<open>"text"\<close>\<close>
  url :: string

record PerspectiveView =
  sentiment :: pynum
  summary :: string
  tweets :: "Citation list"

record SentimentReport =
  nonBiasedSummary :: string
  left :: PerspectiveView
  center :: PerspectiveView
  right :: PerspectiveView

definition default_view :: PerspectiveView where
  "default_view = \<lparr>sentiment = PyInt 0, summary = [], tweets = []\<rparr>"

definition default_report :: SentimentReport where
  "default_report = \<lparr>nonBiasedSummary = [], left = default_view,
                      center = default_view, right = default_view\<rparr>"

subsection \<open>The patterns\<close>

definition summary_pattern :: regex where
  \<comment> \<open>\<open>### Non-Biased Review[^\n]*\n(.*?)(?=###|$)\<close>\<close>
  "summary_pattern =
     cat [Lit ''### Non-Biased Review'', Star not_newline, Lit [CHR 0x0A],
          Group 1 (LazyStar any_char), Look (Alt (Lit ''###'') Eos)]"

definition score_pattern :: "string \<Rightarrow> regex" where
  \<comment> \<open>\<open>### Left\s*\n\*\*Score:\*\*\s*([-\d.]+).*?\n(.*?)(?=\*\*Example Tweets)\<close>,
      and the same with \<open>Center\<close> and \<open>Right\<close>\<close>
  "score_pattern name =
     cat [Lit (''### '' @ name), Star is_space, Lit [CHR 0x0A], Lit ''**Score:**'',
          Star is_space, Group 1 (Plus score_char), LazyStar any_char, Lit [CHR 0x0A],
          Group 2 (LazyStar any_char), Look (Lit ''**Example Tweets'')]"

definition section_pattern :: "string \<Rightarrow> regex" where
  \<comment> \<open>\<open>### {section_name}.*?\*\*Example Tweets:\*\*(.*?)(?=###|$)\<close>\<close>
  "section_pattern section_name =
     cat [Lit (''### '' @ section_name), LazyStar any_char, Lit ''**Example Tweets:**'',
          Group 1 (LazyStar any_char), Look (Alt (Lit ''###'') Eos)]"

definition tweet_pattern :: regex where
  \<comment> \<open>\<open>\d+\.\s+\*\*Account:\*\*\s*([^\n]+)\s+\*\*Tweet Text:\*\*\s*([^\n]+)\s+\*\*Link:\*\*\s*(https?://[^\s]+)\<close>\<close>
  "tweet_pattern =
     cat [Plus is_digit, Lit ''.'', Plus is_space, Lit ''**Account:**'', Star is_space,
          Group 1 (Plus not_newline), Plus is_space, Lit ''**Tweet Text:**'', Star is_space,
          Group 2 (Plus not_newline), Plus is_space, Lit ''**Link:**'', Star is_space,
          Group 3 (cat [Lit ''http'', Opt (Lit ''s''), Lit ''://'', Plus not_space])]"

subsection \<open>The extractor: \<open>analyze_sentiment\<close> after the model call\<close>

definition extract_summary :: "string \<Rightarrow> SentimentReport \<Rightarrow> SentimentReport" where
  "extract_summary content result =
     (case search summary_pattern content of
        None \<Rightarrow> result
      | Some (_, m) \<Rightarrow> result\<lparr>nonBiasedSummary := strip (group m 1)\<rparr>)"

definition extract_score :: "string \<Rightarrow> string \<Rightarrow> PerspectiveView \<Rightarrow> exn + PerspectiveView" where
  \<comment> \<open>one of the three blocks "Extract left/center/right sentiment"\<close>
  "extract_score name content view =
     (case search (score_pattern name) content of
        None \<Rightarrow> Inr view
      | Some (_, m) \<Rightarrow>
          (case py_float (group m 1) of
             Inl e \<Rightarrow> Inl e
           | Inr v \<Rightarrow> Inr (view\<lparr>sentiment := v, summary := strip (group m 2)\<rparr>)))"

definition citation_of :: "caps \<Rightarrow> Citation" where
  "citation_of m = \<lparr>account = strip (group m 1), tweet_text = strip (group m 2),
                    url = strip (group m 3)\<rparr>"

definition extract_tweets :: "string \<Rightarrow> string \<Rightarrow> Citation list" where
  "extract_tweets content section_name =
     (case search (section_pattern section_name) content of
        None \<Rightarrow> []
      | Some (_, section_match) \<Rightarrow>
          map citation_of (finditer tweet_pattern (group section_match 1)))"

definition extractor :: "string \<Rightarrow> exn + SentimentReport" where
  "extractor content =
     (let result = extract_summary content default_report in
      case extract_score ''Left'' content (left result) of Inl e \<Rightarrow> Inl e | Inr l \<Rightarrow>
      case extract_score ''Center'' content (center result) of Inl e \<Rightarrow> Inl e | Inr c \<Rightarrow>
      case extract_score ''Right'' content (right result) of Inl e \<Rightarrow> Inl e | Inr r \<Rightarrow>
      Inr (result\<lparr>left := l\<lparr>tweets := extract_tweets content ''Left''\<rparr>,
                  center := c\<lparr>tweets := extract_tweets content ''Center''\<rparr>,
                  right := r\<lparr>tweets := extract_tweets content ''Right''\<rparr>\<rparr>))"

subsection \<open>The model call and \<open>analyze_sentiment\<close>\<close>

text \<open>
  The hosted model is outside the program: \<open>chat\<close> maps the system message and the
  prompt to the text of the reply, or to the exception that the SDK raises.
\<close>

type_synonym chat = "string \<Rightarrow> string \<Rightarrow> exn + string"

definition system_message :: string where
  "system_message = ''You are a helpful assistant. Always use the x_search tool to fetch real tweets from X instead of generating them. Provide sources and avoid fabrication.''"

definition prompt :: "string \<Rightarrow> string \<Rightarrow> string" where
  "prompt article_title article_url =
     ''Analyze the sentiment from the political left, right, and center for the following recent news topic: ''
     @ article_title @ ''. Base it on this article if provided: '' @ article_url
     @ [CHR 0x0A, CHR 0x0A]
     @ ''Focus on analysis from the past 30 days only. Provide a 3-sentence non-biased review of the topic.''
     @ [CHR 0x0A, CHR 0x0A]
     @ ''Then, break it down into left, center, and right: a score from -1 (negative) to 1 (positive), 2-3 sentences on how the group feels about the topic, and three example tweets for each left, right, and center to back up the analysis, including the account name, tweet text, and link to each tweet.''
     @ [CHR 0x0A, CHR 0x0A]
     @ ''Use x_search to find REAL tweets from X/Twitter. Do not fabricate or invent examples.''"

definition analyze_sentiment :: "chat \<Rightarrow> string \<Rightarrow> string \<Rightarrow> exn + SentimentReport" where
  "analyze_sentiment chat article_title article_url =
     (case chat system_message (prompt article_title article_url) of
        Inl e \<Rightarrow> Inl e
      | Inr content \<Rightarrow> extractor content)"

subsection \<open>The command line\<close>

text \<open>
  What a run leaves behind: the objects handed to \<open>json.dumps\<close> and printed on each
  stream, the exit status, and the number of requests sent to the model.
\<close>

datatype json =
    JString string
  | JNumber pynum
  | JArray "json list"
  | JObject "(string \<times> json) list"

datatype printed =
    Dumps json          \<comment> \<open>\<open>print(json.dumps(v))\<close>\<close>
  | DumpsIndent2 json   \<comment> \<open>\<open>print(json.dumps(v, indent=2))\<close>\<close>

record run =
  stdout :: "printed list"
  stderr :: "printed list"
  exit_status :: int
  model_calls :: nat

definition json_of_citation :: "Citation \<Rightarrow> json" where
  "json_of_citation t =
     JObject [(''account'', JString (account t)), (''text'', JString (tweet_text t)),
              (''url'', JString (url t))]"

definition json_of_view :: "PerspectiveView \<Rightarrow> json" where
  "json_of_view v =
     JObject [(''sentiment'', JNumber (sentiment v)), (''summary'', JString (summary v)),
              (''tweets'', JArray (map json_of_citation (tweets v)))]"

definition json_of_report :: "SentimentReport \<Rightarrow> json" where
  "json_of_report r =
     JObject [(''nonBiasedSummary'', JString (nonBiasedSummary r)),
              (''left'', json_of_view (left r)), (''center'', json_of_view (center r)),
              (''right'', json_of_view (right r))]"

definition usage_error :: json where
  "usage_error = JObject [(''error'', JString ''Usage: analyze-sentiment-xai.py <title> <url>'')]"

definition main :: "chat \<Rightarrow> string list \<Rightarrow> run" where
  \<comment> \<open>\<open>argv\<close> is \<open>sys.argv\<close>: the script name, then the positional arguments\<close>
  "main chat argv =
     (if length argv < 3
      then \<lparr>stdout = [Dumps usage_error], stderr = [], exit_status = 1, model_calls = 0\<rparr>
      else
        let title = argv ! 1; article_url = argv ! 2 in
        case analyze_sentiment chat title article_url of
          Inr result \<Rightarrow>
            \<lparr>stdout = [DumpsIndent2 (json_of_report result)], stderr = [],
             exit_status = 0, model_calls = 1\<rparr>
        | Inl e \<Rightarrow>
            \<lparr>stdout = [], stderr = [Dumps (JObject [(''error'', JString (str_of_exn e))])],
             exit_status = 1, model_calls = 1\<rparr>)"

subsection \<open>Auxiliary text functions\<close>




section \<open>Sample inputs\<close>

definition score_with_full_stop :: string where
  \<comment> \<open>a reply whose score is followed by a full stop\<close>
  "score_with_full_stop =
     ''### Left\<newline>**Score:** 0.5.\<newline>Supportive.\<newline>**Example Tweets:**\<newline>''"

definition four_citations :: string where
  "four_citations =
     ''### Left\<newline>**Example Tweets:**\<newline>'' @
     ''1. **Account:** @a\<newline>**Tweet Text:** one\<newline>**Link:** https://x.com/a/1\<newline>'' @
     ''2. **Account:** @b\<newline>**Tweet Text:** two\<newline>**Link:** https://x.com/b/2\<newline>'' @
     ''3. **Account:** @c\<newline>**Tweet Text:** three\<newline>**Link:** http://x.com/c/3\<newline>'' @
     ''4. **Account:** @d\<newline>**Tweet Text:** four\<newline>**Link:** https://x.com/d/4\<newline>''"

definition unrelated_reply :: string where
  "unrelated_reply = ''I could not find any posts. ## Left **Score:** 1''"


definition one_citation_reply :: string where
  "one_citation_reply =
     ''### Non-Biased Review\<newline>Council voted.\<newline>'' @
     ''### Left\<newline>**Score:** 0.5\<newline>Supportive.\<newline>**Example Tweets:**\<newline>'' @
     ''1. **Account:** @a\<newline>**Tweet Text:** good\<newline>**Link:** https://x.com/a/1\<newline>''"

definition replying_chat :: chat where
  "replying_chat sys usr = Inr one_citation_reply"

definition bad_score_chat :: chat where
  "bad_score_chat sys usr = Inr score_with_full_stop"

definition failing_chat :: chat where
  "failing_chat sys usr = Inl (UpstreamError ''401 Unauthorized'')"

definition silent_chat :: chat where
  "silent_chat sys usr = Inr []"

section \<open>Facts about the matcher\<close>

lemma lit_Some_iff: "lit w s = Some s' \<longleftrightarrow> s = w @ s'"
  by (induction w s rule: lit.induct) auto

lemma lit_None_iff: "lit w s = None \<longleftrightarrow> \<not> prefix w s"
  by (induction w s rule: lit.induct) auto

lemma lit_append [simp]: "lit w (w @ s) = Some s"
  by (simp add: lit_Some_iff)

lemma match_at_lit_None:
  "\<not> prefix w s \<Longrightarrow> match_at (Seq (Lit w) r) s = None"
  using lit_None_iff [of w s] by (simp add: match_at_def)

lemma search_lit_absent:
  "\<not> sublist w s \<Longrightarrow> search (Seq (Lit w) r) s = None"
proof (induction s)
  case Nil
  then show ?case by (simp add: match_at_lit_None)
next
  case (Cons x s)
  then have "\<not> prefix w (x # s)" "\<not> sublist w s"
    by (auto simp: sublist_Cons_right)
  with Cons.IH show ?case by (simp add: match_at_lit_None)
qed

lemma summary_pattern_head: "\<exists>r. summary_pattern = Seq (Lit ''### Non-Biased Review'') r"
  by (simp add: summary_pattern_def)

lemma score_pattern_head: "\<exists>r. score_pattern name = Seq (Lit (''### '' @ name)) r"
  by (simp add: score_pattern_def)

lemma section_pattern_head: "\<exists>r. section_pattern name = Seq (Lit (''### '' @ name)) r"
  by (simp add: section_pattern_def)

section \<open>The command line\<close>

text \<open>
  C6. With fewer than two positional arguments (\<open>sys.argv\<close> shorter than three) the run
  prints the usage object on standard output, nothing on standard error, exits with
  status 1 and sends no request to the model.
\<close>

theorem usage_error_on_stdout:
  "length argv < 3 \<Longrightarrow>
   main chat argv = \<lparr>stdout = [Dumps usage_error], stderr = [], exit_status = 1, model_calls = 0\<rparr>"
  by (simp add: main_def)

theorem usage_error_on_stdout_witness:
  "length [''analyze-sentiment-xai.py'', ''City Council Approves New Zoning Law''] < 3 \<and>
   main failing_chat [''analyze-sentiment-xai.py'', ''City Council Approves New Zoning Law'']
     = \<lparr>stdout = [Dumps (JObject [(''error'', JString ''Usage: analyze-sentiment-xai.py <title> <url>'')])],
        stderr = [], exit_status = 1, model_calls = 0\<rparr> \<and>
   length [''analyze-sentiment-xai.py''] < 3 \<and>
   main failing_chat [''analyze-sentiment-xai.py'']
     = \<lparr>stdout = [Dumps (JObject [(''error'', JString ''Usage: analyze-sentiment-xai.py <title> <url>'')])],
        stderr = [], exit_status = 1, model_calls = 0\<rparr>"
  using usage_error_on_stdout [of "[''analyze-sentiment-xai.py'', ''City Council Approves New Zoning Law'']" failing_chat]
        usage_error_on_stdout [of "[''analyze-sentiment-xai.py'']" failing_chat]
  by (simp add: usage_error_def)

text \<open>
  C7. With two arguments: when \<open>analyze_sentiment\<close> raises, the run prints the object
  \<open>{"error": str(e)}\<close> on standard error, nothing on standard output, and exits with
  status 1; when it returns, the run prints the whole report with \<open>indent=2\<close> on standard
  output (the summary, and for each of left, center and right the sentiment, the summary
  and every citation with its account, text and url), nothing on standard error, and
  exits with status 0. No run prints on both streams.
\<close>

theorem success_or_error_never_both:
  "(\<forall>e. analyze_sentiment chat title article_url = Inl e \<longrightarrow>
        main chat [prog, title, article_url] =
          \<lparr>stdout = [], stderr = [Dumps (JObject [(''error'', JString (str_of_exn e))])],
           exit_status = 1, model_calls = 1\<rparr>) \<and>
   (\<forall>r. analyze_sentiment chat title article_url = Inr r \<longrightarrow>
        main chat [prog, title, article_url] =
          \<lparr>stdout = [DumpsIndent2 (JObject
             [(''nonBiasedSummary'', JString (nonBiasedSummary r)),
              (''left'', JObject [(''sentiment'', JNumber (sentiment (left r))), (''summary'', JString (summary (left r))),
                (''tweets'', JArray (map (\<lambda>t. JObject [(''account'', JString (account t)),
                   (''text'', JString (tweet_text t)), (''url'', JString (url t))]) (tweets (left r))))]),
              (''center'', JObject [(''sentiment'', JNumber (sentiment (center r))), (''summary'', JString (summary (center r))),
                (''tweets'', JArray (map (\<lambda>t. JObject [(''account'', JString (account t)),
                   (''text'', JString (tweet_text t)), (''url'', JString (url t))]) (tweets (center r))))]),
              (''right'', JObject [(''sentiment'', JNumber (sentiment (right r))), (''summary'', JString (summary (right r))),
                (''tweets'', JArray (map (\<lambda>t. JObject [(''account'', JString (account t)),
                   (''text'', JString (tweet_text t)), (''url'', JString (url t))]) (tweets (right r))))])])],
           stderr = [], exit_status = 0, model_calls = 1\<rparr>) \<and>
   \<not> (stdout (main chat [prog, title, article_url]) \<noteq> [] \<and>
      stderr (main chat [prog, title, article_url]) \<noteq> [])"
  by (simp add: main_def json_of_report_def json_of_view_def json_of_citation_def
        split: sum.splits)

theorem success_or_error_never_both_witness:
  "analyze_sentiment failing_chat ''t'' ''u'' = Inl (UpstreamError ''401 Unauthorized'') \<and>
   main failing_chat [''p'', ''t'', ''u''] =
     \<lparr>stdout = [], stderr = [Dumps (JObject [(''error'', JString ''401 Unauthorized'')])],
      exit_status = 1, model_calls = 1\<rparr> \<and>
   analyze_sentiment bad_score_chat ''t'' ''u'' =
     Inl (ValueError (''could not convert string to float: '' @ [CHR 0x27] @ ''0.5.'' @ [CHR 0x27])) \<and>
   main bad_score_chat [''p'', ''t'', ''u''] =
     \<lparr>stdout = [],
      stderr = [Dumps (JObject [(''error'',
         JString (''could not convert string to float: '' @ [CHR 0x27] @ ''0.5.'' @ [CHR 0x27]))])],
      exit_status = 1, model_calls = 1\<rparr> \<and>
   analyze_sentiment replying_chat ''t'' ''u'' =
     Inr \<lparr>nonBiasedSummary = ''Council voted.'',
          left = \<lparr>sentiment = PyFloat (1 / 2), summary = ''Supportive.'',
                  tweets = [\<lparr>account = ''@a'', tweet_text = ''good'', url = ''https://x.com/a/1''\<rparr>]\<rparr>,
          center = \<lparr>sentiment = PyInt 0, summary = [], tweets = []\<rparr>,
          right = \<lparr>sentiment = PyInt 0, summary = [], tweets = []\<rparr>\<rparr> \<and>
   main replying_chat [''p'', ''t'', ''u''] =
     \<lparr>stdout = [DumpsIndent2 (JObject
        [(''nonBiasedSummary'', JString ''Council voted.''),
         (''left'', JObject [(''sentiment'', JNumber (PyFloat (1 / 2))),
                            (''summary'', JString ''Supportive.''),
                            (''tweets'', JArray [JObject [(''account'', JString ''@a''),
                               (''text'', JString ''good''),
                               (''url'', JString ''https://x.com/a/1'')]])]),
         (''center'', JObject [(''sentiment'', JNumber (PyInt 0)), (''summary'', JString []),
                              (''tweets'', JArray [])]),
         (''right'', JObject [(''sentiment'', JNumber (PyInt 0)), (''summary'', JString []),
                             (''tweets'', JArray [])])])],
      stderr = [], exit_status = 0, model_calls = 1\<rparr>"
proof -
  have a: "analyze_sentiment failing_chat ''t'' ''u'' = Inl (UpstreamError ''401 Unauthorized'')"
    by (simp add: analyze_sentiment_def failing_chat_def)
  have b: "analyze_sentiment bad_score_chat ''t'' ''u'' =
     Inl (ValueError (''could not convert string to float: '' @ [CHR 0x27] @ ''0.5.'' @ [CHR 0x27]))"
    by code_simp
  have c: "analyze_sentiment replying_chat ''t'' ''u'' =
     Inr \<lparr>nonBiasedSummary = ''Council voted.'',
          left = \<lparr>sentiment = PyFloat (1 / 2), summary = ''Supportive.'',
                  tweets = [\<lparr>account = ''@a'', tweet_text = ''good'', url = ''https://x.com/a/1''\<rparr>]\<rparr>,
          center = \<lparr>sentiment = PyInt 0, summary = [], tweets = []\<rparr>,
          right = \<lparr>sentiment = PyInt 0, summary = [], tweets = []\<rparr>\<rparr>"
    by code_simp
  show ?thesis
    using a b c
      success_or_error_never_both [of failing_chat "''t''" "''u''" "''p''"]
      success_or_error_never_both [of bad_score_chat "''t''" "''u''" "''p''"]
      success_or_error_never_both [of replying_chat "''t''" "''u''" "''p''"]
    by simp
qed

section \<open>The extractor on sample replies\<close>

text \<open>
  C1. The extractor is claimed never to raise. It does: the score pattern captures any
  run of minus signs, digits and points, and \<open>float()\<close> rejects most of them. On a reply
  whose score is followed by a full stop the captured token is \<open>0.5.\<close> and the extractor
  raises \<open>ValueError\<close>.
\<close>

theorem extractor_raises_on_score_token:
  "extractor score_with_full_stop =
     Inl (ValueError (''could not convert string to float: '' @ [CHR 0x27] @ ''0.5.'' @ [CHR 0x27]))"
  by code_simp

text \<open>
  C10. The extractor does not stop at three citations: a tweet list with four
  well-formed entries yields four citations.
\<close>

theorem more_than_three_citations:
  "\<exists>r. extractor four_citations = Inr r \<and> length (tweets (left r)) > 3 \<and>
       tweets (left r) =
         [\<lparr>account = ''@a'', tweet_text = ''one'', url = ''https://x.com/a/1''\<rparr>,
          \<lparr>account = ''@b'', tweet_text = ''two'', url = ''https://x.com/b/2''\<rparr>,
          \<lparr>account = ''@c'', tweet_text = ''three'', url = ''http://x.com/c/3''\<rparr>,
          \<lparr>account = ''@d'', tweet_text = ''four'', url = ''https://x.com/d/4''\<rparr>]"
proof -
  have "extractor four_citations =
          Inr (default_report\<lparr>left := default_view\<lparr>tweets :=
            [\<lparr>account = ''@a'', tweet_text = ''one'', url = ''https://x.com/a/1''\<rparr>,
             \<lparr>account = ''@b'', tweet_text = ''two'', url = ''https://x.com/b/2''\<rparr>,
             \<lparr>account = ''@c'', tweet_text = ''three'', url = ''http://x.com/c/3''\<rparr>,
             \<lparr>account = ''@d'', tweet_text = ''four'', url = ''https://x.com/d/4''\<rparr>]\<rparr>\<rparr>)"
    by code_simp
  then show ?thesis by simp
qed

section \<open>Headings\<close>

lemma search_summary_absent:
  "\<not> sublist ''### Non-Biased Review'' s \<Longrightarrow> search summary_pattern s = None"
proof -
  assume a: "\<not> sublist ''### Non-Biased Review'' s"
  from summary_pattern_head obtain r where "summary_pattern = Seq (Lit ''### Non-Biased Review'') r" ..
  with search_lit_absent [OF a, of r] show ?thesis by simp
qed

lemma search_score_absent:
  "\<not> sublist (''### '' @ name) s \<Longrightarrow> search (score_pattern name) s = None"
proof -
  assume a: "\<not> sublist (''### '' @ name) s"
  from score_pattern_head obtain r where "score_pattern name = Seq (Lit (''### '' @ name)) r" ..
  with search_lit_absent [OF a, of r] show ?thesis by simp
qed

lemma search_section_absent:
  "\<not> sublist (''### '' @ name) s \<Longrightarrow> search (section_pattern name) s = None"
proof -
  assume a: "\<not> sublist (''### '' @ name) s"
  from section_pattern_head obtain r where "section_pattern name = Seq (Lit (''### '' @ name)) r" ..
  with search_lit_absent [OF a, of r] show ?thesis by simp
qed

text \<open>
  C2. A reply that contains none of the four headings, the empty reply included, yields
  the all-defaults report, and the extractor does not raise.
\<close>

theorem no_heading_gives_defaults:
  assumes "\<not> sublist ''### Non-Biased Review'' content"
    and "\<not> sublist ''### Left'' content"
    and "\<not> sublist ''### Center'' content"
    and "\<not> sublist ''### Right'' content"
  shows "extractor content = Inr default_report"
proof -
  have s: "extract_summary content default_report = default_report"
    using assms(1) by (simp add: extract_summary_def search_summary_absent)
  have l: "extract_score ''Left'' content v = Inr v" "extract_tweets content ''Left'' = []" for v
    using assms(2) search_score_absent [of "''Left''" content]
      search_section_absent [of "''Left''" content]
    by (simp_all add: extract_score_def extract_tweets_def)
  have c: "extract_score ''Center'' content v = Inr v" "extract_tweets content ''Center'' = []" for v
    using assms(3) search_score_absent [of "''Center''" content]
      search_section_absent [of "''Center''" content]
    by (simp_all add: extract_score_def extract_tweets_def)
  have r: "extract_score ''Right'' content v = Inr v" "extract_tweets content ''Right'' = []" for v
    using assms(4) search_score_absent [of "''Right''" content]
      search_section_absent [of "''Right''" content]
    by (simp_all add: extract_score_def extract_tweets_def)
  show ?thesis
    unfolding extractor_def Let_def s l c r
    by (simp add: default_report_def default_view_def)
qed

theorem no_heading_gives_defaults_witness:
  "\<not> sublist ''### Non-Biased Review'' unrelated_reply \<and>
   \<not> sublist ''### Left'' unrelated_reply \<and>
   \<not> sublist ''### Center'' unrelated_reply \<and>
   \<not> sublist ''### Right'' unrelated_reply \<and>
   extractor unrelated_reply = Inr default_report \<and>
   extractor [] = Inr default_report"
proof -
  have h: "\<not> sublist ''### Non-Biased Review'' unrelated_reply"
     "\<not> sublist ''### Left'' unrelated_reply"
     "\<not> sublist ''### Center'' unrelated_reply"
     "\<not> sublist ''### Right'' unrelated_reply"
    by code_simp+
  show ?thesis
    using h no_heading_gives_defaults [OF h] no_heading_gives_defaults [of "[]"]
    by simp
qed


lemma search_match_at: "match_at r s = Some m \<Longrightarrow> search r s = Some m"
  by (cases s) simp_all











end
